theory Spec2Isabelle
  imports Main "HOL-Library.Word" "HOL-Library.Multiset" "HOL-Library.Sublist"
begin

unbundle bit_operations_syntax

section \<open>Data model (types.ts)\<close>

text \<open>
  A timestamp is the string \<^verbatim>\<open>new Date().toISOString()\<close>; the only thing the code does with
  it besides storing it is \<^verbatim>\<open>+new Date(iso)\<close>, which reads back the millisecond count the
  string was made from. The model keeps that count. Strings are byte strings.

  \<^verbatim>\<open>CreateNoteInput\<close> has the fields \<open>title\<close>, \<open>content\<close>, \<open>tags\<close>; \<^verbatim>\<open>Note\<close> has the same three
  and \<open>id\<close>, \<open>createdAt\<close>, \<open>updatedAt\<close>. The field \<open>id\<close> is \<open>note_id\<close> here (\<open>id\<close> is HOL's
  identity function). An optional field of \<^verbatim>\<open>UpdateNoteInput\<close> is an option: \<open>None\<close> when the
  property is not supplied.
\<close>

type_synonym NoteID = string

record CreateNoteInput =
  title :: string
  content :: string
  tags :: "string list"

record Note = CreateNoteInput +
  note_id :: NoteID
  createdAt :: int
  updatedAt :: int

record UpdateNoteInput =
  upd_title :: "string option"
  upd_content :: "string option"
  upd_tags :: "string list option"

datatype error = Error string | SyntaxError

section \<open>The environment: storage, clock, random source, listener calls\<close>

text \<open>
  What is stored under \<^verbatim>\<open>STORAGE_KEY\<close> is a string; the model keeps what the code can tell
  about it: whether it is empty (falsy), whether \<^verbatim>\<open>JSON.parse\<close> throws on it, whether the
  parsed value is an array. The elements of a stored array are read as \<^verbatim>\<open>Note[]\<close>, as the
  cast in \<^verbatim>\<open>read\<close> says. \<^verbatim>\<open>localStorage.getItem\<close> and \<^verbatim>\<open>localStorage.setItem\<close> themselves
  are taken to succeed.
\<close>

datatype raw = EmptyString | Malformed | NonArray | NoteArray "Note list"

datatype parsed = Other | Arr "Note list"

text \<open>
  \<open>clock\<close> lists the successive readings of \<^verbatim>\<open>new Date()\<close> and \<open>ticks\<close> counts the readings
  taken; \<open>random\<close> lists the successive values of \<^verbatim>\<open>(Math.random() * 16) | 0\<close>, each in
  \<open>0..15\<close>, and \<open>draws\<close> counts the values taken. \<open>invoked\<close> is the sequence of listener calls
  made so far, oldest first.
\<close>

type_synonym Listener = nat

record world =
  localStorage :: "raw option"
  clock :: "nat \<Rightarrow> int"
  ticks :: nat
  random :: "nat \<Rightarrow> 4 word"
  draws :: nat
  invoked :: "Listener list"

definition new_Date :: "world \<Rightarrow> int \<times> world" where
  "new_Date w = (clock w (ticks w), w\<lparr>ticks := Suc (ticks w)\<rparr>)"

definition Math_random16 :: "world \<Rightarrow> 4 word \<times> world" where
  "Math_random16 w = (random w (draws w), w\<lparr>draws := Suc (draws w)\<rparr>)"

definition JSON_parse :: "raw \<Rightarrow> error + parsed" where
  "JSON_parse r = (case r of
       EmptyString \<Rightarrow> Inl SyntaxError
     | Malformed \<Rightarrow> Inl SyntaxError
     | NonArray \<Rightarrow> Inr Other
     | NoteArray ns \<Rightarrow> Inr (Arr ns))"

definition JSON_stringify :: "Note list \<Rightarrow> raw" where
  "JSON_stringify ns = NoteArray ns"

subsection \<open>uid (types.ts)\<close>

definition toString16 :: "4 word \<Rightarrow> char" where
  "toString16 v = ''0123456789abcdef'' ! unat v"

text \<open>
  \<^verbatim>\<open>template.replace(/[xy]/g, f)\<close>: every \<open>x\<close> and \<open>y\<close> of the template, from left to right, is
  replaced by what \<open>f\<close> returns, and \<open>f\<close> draws one random value each time.
\<close>

fun replace_xy :: "string \<Rightarrow> world \<Rightarrow> string \<times> world" where
  "replace_xy [] w = ([], w)"
| "replace_xy (c # cs) w =
     (if c = CHR ''x'' \<or> c = CHR ''y'' then
        (let (r, w1) = Math_random16 w;
             v = (if c = CHR ''x'' then r else (r AND 3) OR 8);
             (rest, w2) = replace_xy cs w1
         in (toString16 v # rest, w2))
      else
        (let (rest, w2) = replace_xy cs w in (c # rest, w2)))"

definition uid :: "world \<Rightarrow> NoteID \<times> world" where
  "uid w = replace_xy ''xxxxxxxx-xxxx-4xxx-yxxx-xxxxxxxxxxxx'' w"

section \<open>The Local Store (createLocalMock in services/api.ts)\<close>

text \<open>
  The methods \<open>list\<close>, \<open>get\<close>, \<open>create\<close>, \<open>update\<close> and \<open>remove\<close> of the object that
  \<^verbatim>\<open>createLocalMock\<close> returns are \<open>mock_list\<close>, \<open>mock_get\<close>, \<open>mock_create\<close>, \<open>mock_update\<close> and
  \<open>mock_remove\<close>; its helper \<^verbatim>\<open>write\<close> is \<open>write_all\<close> and the string method \<^verbatim>\<open>includes\<close> is
  \<open>str_includes\<close> (both names are keywords of Isabelle). Every operation is an \<^verbatim>\<open>async\<close>
  function without an \<^verbatim>\<open>await\<close> inside: it runs from its call to its completion, taking the
  environment and returning its result with the environment it leaves. The error that
  \<open>update\<close> throws is the left summand of its result.
\<close>

definition write_all :: "Note list \<Rightarrow> world \<Rightarrow> world" where
  "write_all ns w = w\<lparr>localStorage := Some (JSON_stringify ns)\<rparr>"

definition seed :: "world \<Rightarrow> Note list \<times> world" where
  "seed w =
     (let (now, w1) = new_Date w;
          (id1, w2) = uid w1;
          (id2, w3) = uid w2;
          data =
            [\<lparr>title = ''Welcome to Notes'',
              content = ''This is a demo note. Use the + New Note button to create your own. Edit, search, and delete as needed.'',
              tags = [''welcome'', ''demo''],
              note_id = id1, createdAt = now, updatedAt = now\<rparr>,
             \<lparr>title = ''Keyboard Tips'',
              content = ''Use Ctrl/Cmd+K to focus search. Use Ctrl/Cmd+Enter to save in the editor.'',
              tags = [''tips''],
              note_id = id2, createdAt = now, updatedAt = now\<rparr>]
      in (data, write_all data w3))"

text \<open>
  \<^verbatim>\<open>read\<close>: a missing value and the empty string are falsy; a \<^verbatim>\<open>SyntaxError\<close> of
  \<^verbatim>\<open>JSON.parse\<close> is caught; a parsed value that is not an array is replaced. All four seed.
\<close>

definition read :: "world \<Rightarrow> Note list \<times> world" where
  "read w =
     (case localStorage w of
        None \<Rightarrow> seed w
      | Some r \<Rightarrow>
          if r = EmptyString then seed w
          else (case JSON_parse r of
                  Inl e \<Rightarrow> seed w
                | Inr Other \<Rightarrow> seed w
                | Inr (Arr ns) \<Rightarrow> (ns, w)))"

subsection \<open>Array and string methods used by the store\<close>

text \<open>
  \<^verbatim>\<open>Array.prototype.sort(compareFn)\<close> is stable: \<open>a\<close> comes before \<open>b\<close> when
  \<open>compareFn a b < 0\<close>, after it when \<open>compareFn a b > 0\<close>, and two elements that compare
  equal keep their order. Insertion from the right end does that.
\<close>

fun insert_cmp :: "('a \<Rightarrow> 'a \<Rightarrow> int) \<Rightarrow> 'a \<Rightarrow> 'a list \<Rightarrow> 'a list" where
  "insert_cmp cmp x [] = [x]"
| "insert_cmp cmp x (y # ys) = (if cmp x y \<le> 0 then x # y # ys else y # insert_cmp cmp x ys)"

definition sort_cmp :: "('a \<Rightarrow> 'a \<Rightarrow> int) \<Rightarrow> 'a list \<Rightarrow> 'a list" where
  "sort_cmp cmp xs = foldr (insert_cmp cmp) xs []"

definition toLowerCase_char :: "char \<Rightarrow> char" where
  "toLowerCase_char c =
     (let k = (of_char c :: nat) in if 65 \<le> k \<and> k \<le> 90 then char_of (k + 32) else c)"

definition toLowerCase :: "string \<Rightarrow> string" where
  "toLowerCase s = map toLowerCase_char s"

fun str_includes :: "string \<Rightarrow> string \<Rightarrow> bool" where
  "str_includes [] q = (q = [])"
| "str_includes (c # cs) q = (prefix q (c # cs) \<or> str_includes cs q)"

fun findIndex :: "('a \<Rightarrow> bool) \<Rightarrow> 'a list \<Rightarrow> nat option" where
  "findIndex P [] = None"
| "findIndex P (x # xs) = (if P x then Some 0 else map_option Suc (findIndex P xs))"

definition or_default :: "string \<Rightarrow> string \<Rightarrow> string" where
  "or_default s d = (if s = [] then d else s)"

subsection \<open>The five operations\<close>

definition note_matches :: "string \<Rightarrow> Note \<Rightarrow> bool" where
  "note_matches q n =
     (str_includes (toLowerCase (title n)) q \<or>
      str_includes (toLowerCase (content n)) q \<or>
      list_ex (\<lambda>t. str_includes (toLowerCase t) q) (tags n))"

definition mock_list :: "string option \<Rightarrow> world \<Rightarrow> Note list \<times> world" where
  "mock_list query w =
     (let (ns, w1) = read w;
          all = sort_cmp (\<lambda>a b. updatedAt b - updatedAt a) ns
      in case query of
           None \<Rightarrow> (all, w1)
         | Some qs \<Rightarrow>
             if qs = [] then (all, w1)
             else (let q = toLowerCase qs in (filter (note_matches q) all, w1)))"

definition mock_get :: "NoteID \<Rightarrow> world \<Rightarrow> Note option \<times> world" where
  "mock_get i w = (let (ns, w1) = read w in (find (\<lambda>n. note_id n = i) ns, w1))"

definition mock_create :: "CreateNoteInput \<Rightarrow> world \<Rightarrow> Note \<times> world" where
  "mock_create input w =
     (let (now, w1) = new_Date w;
          (i, w2) = uid w1;
          newNote = \<lparr>title = or_default (title input) ''Untitled'',
                     content = or_default (content input) '''',
                     tags = tags input,
                     note_id = i, createdAt = now, updatedAt = now\<rparr>;
          (all, w3) = read w2
      in (newNote, write_all (newNote # all) w3))"

definition mock_update :: "NoteID \<Rightarrow> UpdateNoteInput \<Rightarrow> world \<Rightarrow> (error + Note) \<times> world" where
  "mock_update i input w =
     (let (all, w1) = read w in
      case findIndex (\<lambda>n. note_id n = i) all of
        None \<Rightarrow> (Inl (Error ''Note not found''), w1)
      | Some idx \<Rightarrow>
          (let old = all ! idx;
               (now, w2) = new_Date w1;
               updated = old\<lparr>title := (case upd_title input of None \<Rightarrow> title old | Some t \<Rightarrow> t),
                             content := (case upd_content input of None \<Rightarrow> content old | Some c \<Rightarrow> c),
                             tags := (case upd_tags input of None \<Rightarrow> tags old | Some ts \<Rightarrow> ts),
                             updatedAt := now\<rparr>
           in (Inr updated, write_all (all[idx := updated]) w2)))"

definition mock_remove :: "NoteID \<Rightarrow> world \<Rightarrow> unit \<times> world" where
  "mock_remove i w =
     (let (all, w1) = read w;
          next = filter (\<lambda>n. note_id n \<noteq> i) all
      in ((), write_all next w1))"

section \<open>The Remote Client (createBackendClient in services/api.ts)\<close>

text \<open>
  \<^verbatim>\<open>fetch\<close> either rejects (connection refused, timeout) or resolves with a response. Of a
  response the client reads \<open>status\<close> (\<^verbatim>\<open>res.ok\<close> is a status in \<open>200..299\<close>) and the value
  of \<^verbatim>\<open>res.json()\<close>, which it takes to be of the type of the operation, as its casts
  \<^verbatim>\<open>as Note[]\<close> and \<^verbatim>\<open>as Note\<close> say (\<open>body\<close>). The network reached under \<^verbatim>\<open>baseUrl\<close> is given
  by what it does with each of the five requests; the argument of \<open>GET_notes\<close> is the
  \<^verbatim>\<open>query\<close> parameter of the URL, \<open>None\<close> when the URL has none. A response with a status in
  \<open>200..299\<close> whose body is not JSON of that type is not modelled. The methods of the object
  that \<^verbatim>\<open>createBackendClient\<close> returns are \<open>backend_list\<close>, \<open>backend_get\<close>, \<open>backend_create\<close>,
  \<open>backend_update\<close> and \<open>backend_remove\<close>; its argument \<^verbatim>\<open>mock\<close> is the Local Store.
\<close>

record 'a response =
  status :: nat
  body :: 'a

datatype 'a outcome = Rejects | Resolves "'a response"

record network =
  GET_notes :: "string option \<Rightarrow> Note list outcome"
  GET_note :: "NoteID \<Rightarrow> Note outcome"
  POST_notes :: "CreateNoteInput \<Rightarrow> Note outcome"
  PATCH_note :: "NoteID \<Rightarrow> UpdateNoteInput \<Rightarrow> Note outcome"
  DELETE_note :: "NoteID \<Rightarrow> unit outcome"

definition ok :: "'a response \<Rightarrow> bool" where
  "ok res = (200 \<le> status res \<and> status res \<le> 299)"

text \<open>
  \<^verbatim>\<open>safeFetch\<close>: a rejection of \<^verbatim>\<open>fetch\<close> and the error thrown for \<^verbatim>\<open>!res.ok\<close> both end in the
  \<^verbatim>\<open>catch\<close>, which returns \<^verbatim>\<open>null\<close>.
\<close>

definition safeFetch :: "'a outcome \<Rightarrow> 'a response option" where
  "safeFetch out =
     (case out of
        Rejects \<Rightarrow> None
      | Resolves res \<Rightarrow> if \<not> ok res then None else Some res)"

definition backend_list :: "network \<Rightarrow> string option \<Rightarrow> world \<Rightarrow> Note list \<times> world" where
  "backend_list net query w =
     (let q = (case query of None \<Rightarrow> None | Some s \<Rightarrow> if s = [] then None else Some s) in
      case safeFetch (GET_notes net q) of
        None \<Rightarrow> mock_list query w
      | Some res \<Rightarrow> (body res, w))"

definition backend_get :: "network \<Rightarrow> NoteID \<Rightarrow> world \<Rightarrow> Note option \<times> world" where
  "backend_get net i w =
     (case safeFetch (GET_note net i) of
        None \<Rightarrow> mock_get i w
      | Some res \<Rightarrow>
          if status res = 404 then (None, w)
          else (Some (body res), w))"

definition backend_create :: "network \<Rightarrow> CreateNoteInput \<Rightarrow> world \<Rightarrow> Note \<times> world" where
  "backend_create net input w =
     (case safeFetch (POST_notes net input) of
        None \<Rightarrow> mock_create input w
      | Some res \<Rightarrow> (body res, w))"

definition backend_update :: "network \<Rightarrow> NoteID \<Rightarrow> UpdateNoteInput \<Rightarrow> world \<Rightarrow> (error + Note) \<times> world" where
  "backend_update net i input w =
     (case safeFetch (PATCH_note net i input) of
        None \<Rightarrow> mock_update i input w
      | Some res \<Rightarrow> (Inr (body res), w))"

definition backend_remove :: "network \<Rightarrow> NoteID \<Rightarrow> world \<Rightarrow> unit \<times> world" where
  "backend_remove net i w =
     (case safeFetch (DELETE_note net i) of
        None \<Rightarrow> mock_remove i w
      | Some res \<Rightarrow> ((), w))"

subsection \<open>getNotesAPI\<close>

text \<open>
  The contract \<^verbatim>\<open>NotesAPI\<close> has two implementations. \<open>base\<close> is what the lookup of
  \<^verbatim>\<open>NOTES_API_BASE\<close> gives, the empty string when it is not configured.
\<close>

datatype NotesAPI = LocalMock | BackendClient network

definition getNotesAPI :: "string \<Rightarrow> network \<Rightarrow> NotesAPI" where
  "getNotesAPI base net = (if base = [] then LocalMock else BackendClient net)"

definition api_list :: "NotesAPI \<Rightarrow> string option \<Rightarrow> world \<Rightarrow> Note list \<times> world" where
  "api_list a query w =
     (case a of LocalMock \<Rightarrow> mock_list query w | BackendClient net \<Rightarrow> backend_list net query w)"

definition api_get :: "NotesAPI \<Rightarrow> NoteID \<Rightarrow> world \<Rightarrow> Note option \<times> world" where
  "api_get a i w =
     (case a of LocalMock \<Rightarrow> mock_get i w | BackendClient net \<Rightarrow> backend_get net i w)"




section \<open>The Reactive Store (class NotesStore)\<close>

text \<open>
  A listener is a function object supplied by the caller; the store compares listeners by
  identity and calls them, so the model names each function object by a number and records
  every call in \<open>invoked\<close>; what a listener does when it is called is not part of the
  store. The private fields \<^verbatim>\<open>api\<close>, \<^verbatim>\<open>_notes\<close> and \<^verbatim>\<open>_query\<close> are \<open>store_api\<close>, \<open>store_notes\<close>
  and \<open>store_query\<close>. Each \<^verbatim>\<open>async\<close> method is followed from
  its call to its completion; an error thrown by an awaited call ends the method there.
\<close>

record NotesStore =
  store_api :: NotesAPI
  store_notes :: "Note list"
  store_query :: string
  listeners :: "Listener list"

definition new_NotesStore :: "string \<Rightarrow> network \<Rightarrow> NotesStore" where
  "new_NotesStore base net =
     \<lparr>store_api = getNotesAPI base net, store_notes = [], store_query = [], listeners = []\<rparr>"

definition unsubscribe :: "Listener \<Rightarrow> NotesStore \<Rightarrow> NotesStore" where
  "unsubscribe fn s = s\<lparr>listeners := filter (\<lambda>l. l \<noteq> fn) (listeners s)\<rparr>"

text \<open>\<^verbatim>\<open>subscribe\<close> returns the closure over \<open>fn\<close> that is \<open>unsubscribe fn\<close>.\<close>

definition subscribe :: "Listener \<Rightarrow> NotesStore \<Rightarrow> (NotesStore \<Rightarrow> NotesStore) \<times> NotesStore" where
  "subscribe fn s = (unsubscribe fn, s\<lparr>listeners := listeners s @ [fn]\<rparr>)"

definition call :: "Listener \<Rightarrow> world \<Rightarrow> world" where
  "call l w = w\<lparr>invoked := invoked w @ [l]\<rparr>"

definition emit :: "NotesStore \<Rightarrow> world \<Rightarrow> world" where
  "emit s w = fold call (listeners s) w"

definition refresh :: "NotesStore \<Rightarrow> world \<Rightarrow> NotesStore \<times> world" where
  "refresh s w =
     (let (ns, w1) = api_list (store_api s) (Some (store_query s)) w;
          s1 = s\<lparr>store_notes := ns\<rparr>
      in (s1, emit s1 w1))"

definition setQuery :: "string \<Rightarrow> NotesStore \<Rightarrow> world \<Rightarrow> NotesStore \<times> world" where
  "setQuery q s w = refresh (s\<lparr>store_query := q\<rparr>) w"

definition loadOne :: "NoteID \<Rightarrow> NotesStore \<Rightarrow> world \<Rightarrow> Note option \<times> world" where
  "loadOne i s w = api_get (store_api s) i w"




section \<open>Notions of the specification\<close>

subsection \<open>Search\<close>




subsection \<open>A network whose calls always fail\<close>

definition fails :: "'a outcome \<Rightarrow> bool" where
  "fails out = (case out of Rejects \<Rightarrow> True | Resolves res \<Rightarrow> \<not> ok res)"

definition always_fails :: "network \<Rightarrow> bool" where
  "always_fails net =
     ((\<forall>q. fails (GET_notes net q)) \<and> (\<forall>i. fails (GET_note net i)) \<and>
      (\<forall>input. fails (POST_notes net input)) \<and> (\<forall>i input. fails (PATCH_note net i input)) \<and>
      (\<forall>i. fails (DELETE_note net i)))"

subsection \<open>Sequences of Local Store operations and the invariants of the collection\<close>









section \<open>Example data\<close>

definition note_a :: Note where
  "note_a = \<lparr>title = ''Welcome to Notes'', content = ''first note'', tags = [''welcome'', ''demo''],
             note_id = ''a'', createdAt = 1000, updatedAt = 1000\<rparr>"

definition note_b :: Note where
  "note_b = \<lparr>title = ''Keyboard Tips'', content = ''second note'', tags = [''tips''],
             note_id = ''b'', createdAt = 2000, updatedAt = 3000\<rparr>"

text \<open>A world with two notes stored, a clock that advances and a random source that varies.\<close>

definition stored_world :: world where
  "stored_world =
     \<lparr>localStorage = Some (NoteArray [note_a, note_b]),
      clock = (\<lambda>k. 5000 + int k), ticks = 0,
      random = (\<lambda>k. of_nat k), draws = 0, invoked = []\<rparr>"

text \<open>
  A world with nothing stored, in which every reading of the clock falls in the same
  millisecond and every random value is \<open>0\<close>.
\<close>

definition frozen_world :: world where
  "frozen_world =
     \<lparr>localStorage = None, clock = (\<lambda>k. 1000), ticks = 0,
      random = (\<lambda>k. 0), draws = 0, invoked = []\<rparr>"

definition only_content :: UpdateNoteInput where
  "only_content = \<lparr>upd_title = None, upd_content = Some ''x'', upd_tags = None\<rparr>"

definition untitled_input :: CreateNoteInput where
  "untitled_input = \<lparr>title = [], content = ''body'', tags = [''t'']\<rparr>"

definition titled_input :: CreateNoteInput where
  "titled_input = \<lparr>title = ''Shopping'', content = ''milk'', tags = [''home'']\<rparr>"

text \<open>A network on which every request is refused, and one that answers every GET by id with 404.\<close>

definition refusing_network :: network where
  "refusing_network =
     \<lparr>GET_notes = (\<lambda>q. Rejects), GET_note = (\<lambda>i. Rejects), POST_notes = (\<lambda>input. Rejects),
      PATCH_note = (\<lambda>i input. Rejects), DELETE_note = (\<lambda>i. Rejects)\<rparr>"

definition not_found_network :: network where
  "not_found_network =
     refusing_network\<lparr>GET_note := (\<lambda>i. Resolves \<lparr>status = 404, body = note_a\<rparr>)\<rparr>"



section \<open>Basic facts about the environment and the helpers\<close>

lemma replace_xy_world:
  "replace_xy cs w = (s, w') \<Longrightarrow>
   w' = w\<lparr>draws := draws w + length (filter (\<lambda>c. c = CHR ''x'' \<or> c = CHR ''y'') cs)\<rparr>"
proof (induction cs arbitrary: w s w')
  case Nil
  then show ?case by simp
next
  case (Cons c cs)
  show ?case
  proof (cases "c = CHR ''x'' \<or> c = CHR ''y''")
    case True
    obtain rest w2 where r: "replace_xy cs (w\<lparr>draws := Suc (draws w)\<rparr>) = (rest, w2)"
      by (cases "replace_xy cs (w\<lparr>draws := Suc (draws w)\<rparr>)")
    from Cons.prems True r have "w' = w2"
      by (auto simp: Math_random16_def)
    with Cons.IH[OF r] True show ?thesis by simp
  next
    case False
    obtain rest w2 where r: "replace_xy cs w = (rest, w2)"
      by (cases "replace_xy cs w")
    from Cons.prems False r have "w' = w2" by auto
    with Cons.IH[OF r] False show ?thesis by simp
  qed
qed

lemma uid_world: "uid w = (s, w') \<Longrightarrow> w' = w\<lparr>draws := draws w + 31\<rparr>"
  unfolding uid_def by (drule replace_xy_world) simp

lemma replace_xy_zero:
  "random w = (\<lambda>k. 0) \<Longrightarrow>
   fst (replace_xy cs w) =
     map (\<lambda>c. if c = CHR ''x'' then CHR ''0'' else if c = CHR ''y'' then CHR ''8'' else c) cs"
proof (induction cs arbitrary: w)
  case Nil
  then show ?case by simp
next
  case (Cons c cs)
  have "random (w\<lparr>draws := Suc (draws w)\<rparr>) = (\<lambda>k. 0)"
    using Cons.prems by simp
  from Cons.IH[OF this] Cons.IH[OF Cons.prems] Cons.prems show ?case
    by (simp add: Math_random16_def toString16_def split_def)
qed

lemma uid_zero:
  "random w = (\<lambda>k. 0) \<Longrightarrow>
   uid w = (''00000000-0000-4000-8000-000000000000'', w\<lparr>draws := draws w + 31\<rparr>)"
proof -
  assume r: "random w = (\<lambda>k. 0)"
  obtain s w' where u: "uid w = (s, w')" by (cases "uid w")
  have "s = ''00000000-0000-4000-8000-000000000000''"
    using replace_xy_zero[OF r, of "''xxxxxxxx-xxxx-4xxx-yxxx-xxxxxxxxxxxx''"] u
    by (simp add: uid_def)
  with u uid_world[OF u] show ?thesis by simp
qed

lemma read_stored: "localStorage w = Some (NoteArray ns) \<Longrightarrow> read w = (ns, w)"
  by (simp add: read_def JSON_parse_def)



lemma write_all_storage: "localStorage (write_all ns w) = Some (NoteArray ns)"
  by (simp add: write_all_def JSON_stringify_def)




section \<open>The Local Store\<close>



text \<open>
  C4, as the code has it. After \<open>create(input)\<close>, a \<open>get\<close> of the returned note's id returns
  that note; its content and tags are the input's, its two timestamps are equal, and its
  title is the input's title unless that is empty, in which case it is "Untitled".
\<close>

theorem create_then_get:
  "case mock_create input w of (n, w1) \<Rightarrow>
     mock_get (note_id n) w1 = (Some n, w1) \<and>
     title n = (if title input = [] then ''Untitled'' else title input) \<and>
     content n = content input \<and> tags n = tags input \<and>
     createdAt n = updatedAt n"
proof -
  obtain now w1 where a: "new_Date w = (now, w1)" by (cases "new_Date w")
  obtain i w2 where b: "uid w1 = (i, w2)" by (cases "uid w1")
  obtain all w3 where c: "read w2 = (all, w3)" by (cases "read w2")
  define n where "n = \<lparr>title = or_default (title input) ''Untitled'',
                     content = or_default (content input) [],
                     tags = tags input,
                     note_id = i, createdAt = now, updatedAt = now\<rparr>"
  have mc: "mock_create input w = (n, write_all (n # all) w3)"
    by (simp add: mock_create_def a b c n_def Let_def)
  have "mock_get (note_id n) (write_all (n # all) w3) = (Some n, write_all (n # all) w3)"
    by (simp add: mock_get_def read_stored[OF write_all_storage])
  then show ?thesis
    by (simp add: mc) (simp add: n_def or_default_def)
qed

text \<open>
  The claim as the specification states it fails for an input whose title is empty: the
  note that \<open>get\<close> returns is titled "Untitled".
\<close>

theorem create_then_get_counterexample:
  "map_option title
     (fst (mock_get (note_id (fst (mock_create untitled_input frozen_world)))
                    (snd (mock_create untitled_input frozen_world))))
   = Some ''Untitled'' \<and>
   title untitled_input = []"
  by (simp add: mock_create_def mock_get_def untitled_input_def frozen_world_def new_Date_def
      uid_zero read_def seed_def write_all_def JSON_stringify_def JSON_parse_def
      or_default_def Let_def)
























section \<open>The Remote Client\<close>

lemma safeFetch_fails: "fails out \<Longrightarrow> safeFetch out = None"
  by (cases out) (simp_all add: fails_def safeFetch_def)

lemma safeFetch_not_404: "safeFetch out = Some res \<Longrightarrow> status res \<noteq> 404"
  by (cases out) (auto simp: safeFetch_def ok_def split: if_splits)

text \<open>
  C1. With a network whose every call fails (\<^verbatim>\<open>fetch\<close> rejects or the status is outside
  \<open>200..299\<close>), each of the five operations of the Remote Client returns what the same
  operation of the Local Store returns on the same arguments, and leaves the same
  environment. The only error a caller can then see is the "Note not found" of the Local
  Store's \<open>update\<close>.
\<close>

theorem fallback_transparency:
  assumes "always_fails net"
  shows "backend_list net query w = mock_list query w \<and>
         backend_get net i w = mock_get i w \<and>
         backend_create net cinput w = mock_create cinput w \<and>
         backend_update net i uinput w = mock_update i uinput w \<and>
         backend_remove net i w = mock_remove i w"
proof -
  from assms have f:
    "\<And>q. fails (GET_notes net q)" "fails (GET_note net i)" "fails (POST_notes net cinput)"
    "fails (PATCH_note net i uinput)" "fails (DELETE_note net i)"
    by (simp_all add: always_fails_def)
  have "backend_list net query w = mock_list query w"
    by (simp add: backend_list_def safeFetch_fails[OF f(1)] Let_def)
  moreover have "backend_get net i w = mock_get i w"
    by (simp add: backend_get_def safeFetch_fails[OF f(2)])
  moreover have "backend_create net cinput w = mock_create cinput w"
    by (simp add: backend_create_def safeFetch_fails[OF f(3)])
  moreover have "backend_update net i uinput w = mock_update i uinput w"
    by (simp add: backend_update_def safeFetch_fails[OF f(4)])
  moreover have "backend_remove net i w = mock_remove i w"
    by (simp add: backend_remove_def safeFetch_fails[OF f(5)])
  ultimately show ?thesis by simp
qed

theorem fallback_transparency_witness:
  "always_fails not_found_network \<and>
   backend_list not_found_network (Some ''tips'') stored_world = mock_list (Some ''tips'') stored_world \<and>
   backend_get not_found_network ''b'' stored_world = mock_get ''b'' stored_world \<and>
   backend_create not_found_network titled_input stored_world = mock_create titled_input stored_world \<and>
   backend_update not_found_network ''zz'' only_content stored_world =
     (Inl (Error ''Note not found''), stored_world) \<and>
   backend_remove not_found_network ''a'' stored_world = mock_remove ''a'' stored_world"
proof -
  have a: "always_fails not_found_network"
    by (simp add: always_fails_def not_found_network_def refusing_network_def fails_def ok_def)
  have u: "mock_update ''zz'' only_content stored_world = (Inl (Error ''Note not found''), stored_world)"
    by (simp add: mock_update_def read_stored stored_world_def note_a_def note_b_def)
  from fallback_transparency[OF a, of "Some ''tips''" stored_world "''b''" titled_input only_content]
    fallback_transparency[OF a, of "Some ''tips''" stored_world "''zz''" titled_input only_content]
    fallback_transparency[OF a, of "Some ''tips''" stored_world "''a''" titled_input only_content]
    a u show ?thesis by simp
qed

text \<open>
  C2. What the code does when the backend answers a \<open>get\<close> with status 404: the status is
  not in \<open>200..299\<close>, so \<^verbatim>\<open>safeFetch\<close> returns \<^verbatim>\<open>null\<close> and \<open>get\<close> answers from the Local
  Store; the test \<^verbatim>\<open>res.status === 404\<close> is never reached with that status. Here the backend
  says that there is no note \<open>b\<close>, the Local Store has one, and the caller gets it.
\<close>

theorem backend_get_404_answers_from_local_store:
  "GET_note not_found_network ''b'' = Resolves \<lparr>status = 404, body = note_a\<rparr> \<and>
   backend_get not_found_network ''b'' stored_world = (Some note_b, stored_world) \<and>
   fst (backend_get not_found_network ''b'' stored_world) \<noteq> None"
  by (simp add: not_found_network_def refusing_network_def backend_get_def safeFetch_def ok_def
      mock_get_def read_stored stored_world_def note_a_def note_b_def)

section \<open>The Reactive Store\<close>

lemma emit_invoked: "emit s w = w\<lparr>invoked := invoked w @ listeners s\<rparr>"
proof -
  have "fold call ls w = w\<lparr>invoked := invoked w @ ls\<rparr>" for ls
    by (induction ls arbitrary: w) (simp_all add: call_def)
  then show ?thesis by (simp add: emit_def)
qed

lemma seed_invoked: "invoked (snd (seed w)) = invoked w"
proof -
  obtain now w1 where a: "new_Date w = (now, w1)" by (cases "new_Date w")
  obtain id1 w2 where b: "uid w1 = (id1, w2)" by (cases "uid w1")
  obtain id2 w3 where c: "uid w2 = (id2, w3)" by (cases "uid w2")
  from a have "invoked w1 = invoked w" by (auto simp: new_Date_def)
  with uid_world[OF b] uid_world[OF c] have "invoked w3 = invoked w" by simp
  then show ?thesis
    by (simp add: seed_def a b c write_all_def Let_def)
qed

lemma read_invoked: "invoked (snd (read w)) = invoked w"
  by (simp add: read_def seed_invoked split: option.splits sum.splits parsed.splits)

lemma mock_list_invoked: "invoked (snd (mock_list query w)) = invoked w"
  using read_invoked[of w]
  by (simp add: mock_list_def Let_def split_def split: option.splits)


lemma api_list_invoked: "invoked (snd (api_list a query w)) = invoked w"
  by (cases a)
     (simp_all add: api_list_def backend_list_def mock_list_invoked Let_def split: option.splits)


lemma refresh_result:
  "refresh s w =
     (s\<lparr>store_notes := fst (api_list (store_api s) (Some (store_query s)) w)\<rparr>,
      (snd (api_list (store_api s) (Some (store_query s)) w))
        \<lparr>invoked := invoked w @ listeners s\<rparr>)"
  by (simp add: refresh_def split_def Let_def emit_invoked api_list_invoked)




text \<open>
  C10. Each \<open>subscribe(fn)\<close> adds one registration of \<open>fn\<close>, so after \<open>n\<close> subscriptions \<open>fn\<close> is
  registered \<open>n\<close> more times; a \<open>refresh()\<close> calls \<open>fn\<close> as many times as it is registered.
  The handle returned by any subscription of \<open>fn\<close> removes every registration of \<open>fn\<close> and
  no other, and a further call of any such handle changes nothing.
\<close>

theorem duplicate_subscriptions:
  "listeners (((\<lambda>s. snd (subscribe fn s)) ^^ n) s) = listeners s @ replicate n fn \<and>
   count_list (listeners (((\<lambda>s. snd (subscribe fn s)) ^^ n) s)) fn = count_list (listeners s) fn + n \<and>
   count_list (invoked (snd (refresh s w))) fn = count_list (invoked w) fn + count_list (listeners s) fn \<and>
   listeners (fst (subscribe fn s0) s) = filter (\<lambda>l. l \<noteq> fn) (listeners s) \<and>
   count_list (listeners (fst (subscribe fn s0) s)) fn = 0 \<and>
   fst (subscribe fn s1) (fst (subscribe fn s0) s) = fst (subscribe fn s0) s"
proof -
  have r: "listeners (((\<lambda>s. snd (subscribe fn s)) ^^ n) s) = listeners s @ replicate n fn"
  proof (induction n)
    case 0
    show ?case by simp
  next
    case (Suc n)
    then show ?case
      by (simp add: subscribe_def replicate_append_same)
  qed
  have c: "count_list (replicate n fn) fn = n"
    by (induction n) simp_all
  have f: "count_list (filter (\<lambda>l. l \<noteq> fn) xs) fn = 0" for xs
    by (induction xs) simp_all
  have i: "count_list (invoked (snd (refresh s w))) fn =
           count_list (invoked w) fn + count_list (listeners s) fn"
    by (simp add: refresh_result)
  show ?thesis
    by (simp add: r c i f) (simp add: subscribe_def unsubscribe_def f)
qed

section \<open>Invariants of the persisted collection\<close>















end
